theory Spec2Isabelle
  imports Main "HOL-Library.AList"
begin

section \<open>Values, errors and Python list operations\<close>

text \<open>
  Pin and wire tokens are Python values of type \<open>int\<close> or \<open>str\<close>, or \<open>None\<close>.
  Equality on \<open>pyval\<close> is Python's \<open>==\<close> on these three kinds of value: values of
  different kinds are never equal.
\<close>

datatype pyval = PyNone | PyInt int | PyStr string

text \<open>
  \<open>Harness.py\<close> raises the plain \<open>Exception\<close> with a message; the constructors below
  name the message and carry the interpolated name and token:
  \<^item> \<open>PinAmbiguous\<close>: "... is defined both in pinlabels and pins, for different pins."
  \<^item> \<open>PinDuplicate\<close>: "... is defined more than once."
  \<^item> \<open>PinNotFound\<close>: "... not found."
  \<^item> \<open>WireAmbiguous\<close>: "... is defined both in colors and wirelabels, for different wires."
  \<^item> \<open>WireDuplicate\<close>: "... is used for more than one wire."
  \<^item> \<open>NoSideForLoops\<close>: "No side for loops"
  The others are the interpreter's own exceptions.
\<close>

datatype error =
    PinAmbiguous string pyval
  | PinDuplicate string pyval
  | PinNotFound string pyval
  | WireAmbiguous string pyval
  | WireDuplicate string pyval
  | NoSideForLoops
  | AttributeError string
  | KeyError "string option"
  | IndexError
  | ValueError
  | UnboundLocalError string

text \<open>
  \<open>xs.index(x)\<close>: the position of the first occurrence. Python raises \<open>ValueError\<close>
  when \<open>x\<close> is absent; every call in \<open>Harness.py\<close> modelled here is guarded by
  \<open>x in xs\<close>, and the model returns \<open>length xs\<close> in the unreachable case.
  \<open>xs.count(x)\<close> is \<^const>\<open>count_list\<close>, and \<open>x in xs\<close> is \<open>x \<in> set xs\<close>.
\<close>

fun index :: "'a list \<Rightarrow> 'a \<Rightarrow> nat" where
  "index [] x = 0"
| "index (y # ys) x = (if y = x then 0 else Suc (index ys x))"

section \<open>Data model\<close>

text \<open>
  \<open>Connector\<close>, \<open>Cable\<close> and the connection tuple are declared in
  \<open>wireviz.DataClasses\<close>; the records hold the attributes that \<open>Harness.py\<close> reads and
  writes in the functions modelled below, apart from those that only supply text for the
  labels of the nodes. \<open>visible_pins\<close> is a dict from pin to bool, kept as an
  association list. \<open>cable.shield\<close> is a bool or a color string, and the part
  attributes of a cable are a string or, for a bundle, a list with one entry per wire
  (\<open>create_graph\<close> tells them apart with \<open>isinstance\<close>).
\<close>

datatype shield_value = ShieldBool bool | ShieldStr string

datatype part_info = Single string | PerWire "string list"

record connector =
  name :: string
  pins :: "pyval list"
  pinlabels :: "pyval list"
  loops :: "(pyval \<times> pyval) list"
  visible_pins :: "(pyval \<times> bool) list"
  ports_left :: bool
  ports_right :: bool
  style :: string
  show_name :: bool
  type :: string
  subtype :: string
  pn :: string
  manufacturer :: string
  mpn :: string

record connection =
  from_name :: "string option"
  from_port :: pyval
  via_port :: pyval
  to_name :: "string option"
  to_port :: pyval

record cable =
  name :: string
  category :: string
  colors :: "string list"
  wirelabels :: "string list"
  shield :: shield_value
  connections :: "connection list"
  type :: string
  pn :: part_info
  manufacturer :: part_info
  mpn :: part_info

text \<open>
  Modelled from the spec: \<open>MatePin\<close> is not under \<open>src/\<close> (and not imported by
  \<open>Harness.py\<close>). The spec's data model says a pin-level mate carries its two endpoint
  pins and one of the six arrow glyphs; \<open>create_graph\<close> reads \<open>from_name\<close>,
  \<open>from_port\<close>, \<open>to_name\<close>, \<open>to_port\<close> and \<open>shape\<close>.
\<close>

record mate_pin =
  mate_from_name :: string
  mate_from_port :: pyval
  mate_to_name :: string
  mate_to_port :: pyval
  shape :: string

text \<open>
  The keys of the dict \<open>self.mates\<close> written by \<open>connect\<close>: a 4-tuple for a
  dashed glyph, a 2-tuple for a double-line glyph.
\<close>

datatype mate_key =
    MateKey4 "string option" pyval "string option" pyval
  | MateKey2 "string option" "string option"

text \<open>
  A row key of the bill of materials: the kind of part and the attributes the spec lists
  for the composite key (type, subtype, part numbers, manufacturer).
\<close>

datatype bom_key = BomKey string string string string string string

text \<open>
  The harness. \<open>connectors\<close> and \<open>cables\<close> are dicts in insertion order: association
  lists updated with \<^const>\<open>AList.update\<close>, which replaces the value of a present key in
  place and appends a new key. \<open>priv_bom\<close> is the attribute \<open>_bom\<close>.
  \<open>__init__\<close> sets no attribute \<open>mates\<close>, although \<open>connect\<close> writes to
  \<open>self.mates\<close>: the field \<open>mates\<close> is \<open>None\<close> while the object has no such
  attribute and \<open>Some d\<close> once some caller has set it to the dict \<open>d\<close>.
\<close>

record harness =
  color_mode :: string
  mini_bom_mode :: bool
  connectors :: "(string \<times> connector) list"
  cables :: "(string \<times> cable) list"
  mates_pin :: "mate_pin list"
  mates_component :: "(string \<times> string \<times> string) list"
  priv_bom :: "(bom_key \<times> nat) list"
  additional_bom_items :: "bom_key list"
  mates :: "(mate_key \<times> string) list option"

definition arrows :: "string list" where
  "arrows = [''<--'', ''<->'', ''-->'', ''<=='', ''<=>'', ''==>'']"

text \<open>\<open>Harness.__init__\<close>.\<close>

definition init :: harness where
  "init = \<lparr> color_mode = ''SHORT'', mini_bom_mode = True, connectors = [], cables = [],
            mates_pin = [], mates_component = [], priv_bom = [],
            additional_bom_items = [], mates = None \<rparr>"

text \<open>
  \<open>add_connector\<close> and \<open>add_cable\<close> store the object built by the constructor of
  \<open>DataClasses\<close> under its name; the model takes the built object.
\<close>

definition add_connector :: "harness \<Rightarrow> string \<Rightarrow> connector \<Rightarrow> harness" where
  "add_connector h n c = h\<lparr>connectors := AList.update n (c\<lparr>connector.name := n\<rparr>) (connectors h)\<rparr>"

definition add_cable :: "harness \<Rightarrow> string \<Rightarrow> cable \<Rightarrow> harness" where
  "add_cable h n c = h\<lparr>cables := AList.update n (c\<lparr>cable.name := n\<rparr>) (cables h)\<rparr>"

section \<open>connect\<close>

text \<open>
  One iteration of the loop over the two endpoints (lines 53 to 71): \<open>nm\<close> and
  \<open>pin\<close> are the loop variables, \<open>fn\<close> and \<open>tn\<close> the arguments \<open>from_name\<close> and
  \<open>to_name\<close>, and the pair holds the current values of the variables \<open>from_pin\<close> and
  \<open>to_pin\<close>, which the iteration may rebind. \<open>connector.pins[index]\<close> raises
  \<open>IndexError\<close> when \<open>pinlabels\<close> is longer than \<open>pins\<close>.
\<close>

definition check_endpoint ::
  "harness \<Rightarrow> string option \<Rightarrow> pyval \<Rightarrow> string option \<Rightarrow> string option \<Rightarrow> pyval \<times> pyval
    \<Rightarrow> error + pyval \<times> pyval" where
  "check_endpoint h nm pin fn tn fptp =
     (case nm of
        None \<Rightarrow> Inr fptp
      | Some n \<Rightarrow>
         (case map_of (connectors h) n of
            None \<Rightarrow> Inr fptp
          | Some c \<Rightarrow>
             if pin \<in> set (pins c) \<and> pin \<in> set (pinlabels c)
                \<and> index (pins c) pin \<noteq> index (pinlabels c) pin
             then Inl (PinAmbiguous n pin)
             else if pin \<in> set (pinlabels c) then
               (if count_list (pinlabels c) pin > 1 then Inl (PinDuplicate n pin)
                else if index (pinlabels c) pin \<ge> length (pins c) then Inl IndexError
                else
                  let pin' = pins c ! index (pinlabels c) pin;
                      fptp' = (if nm = fn then pin' else fst fptp,
                               if nm = tn then pin' else snd fptp)
                  in if pin' \<notin> set (pins c) then Inl (PinNotFound n pin') else Inr fptp')
             else if pin \<notin> set (pins c) then Inl (PinNotFound n pin)
             else Inr fptp))"

text \<open>
  The whole loop: \<open>zip([from_name, to_name], [from_pin, to_pin])\<close> is built from the
  arguments, so the second iteration checks the original \<open>to_pin\<close>, whatever the first
  one has assigned.
\<close>

definition check_endpoints ::
  "harness \<Rightarrow> string option \<Rightarrow> pyval \<Rightarrow> string option \<Rightarrow> pyval \<Rightarrow> error + pyval \<times> pyval" where
  "check_endpoints h fn fp tn tp =
     (case check_endpoint h fn fp fn tn (fp, tp) of
        Inl e \<Rightarrow> Inl e
      | Inr fptp \<Rightarrow> check_endpoint h tn tp fn tn fptp)"

text \<open>
  Lines 81 to 94: the wire token against the cable's \<open>colors\<close> and \<open>wirelabels\<close>.
  A token found in neither list is left as it is; no exception is raised for it.
\<close>

definition resolve_wire :: "cable \<Rightarrow> string \<Rightarrow> pyval \<Rightarrow> error + pyval" where
  "resolve_wire c via_name via_wire =
     (let cs = map PyStr (colors c); ls = map PyStr (wirelabels c) in
      if via_wire \<in> set cs \<and> via_wire \<in> set ls \<and> index cs via_wire \<noteq> index ls via_wire
      then Inl (WireAmbiguous via_name via_wire)
      else if via_wire \<in> set cs then
        (if count_list cs via_wire > 1 then Inl (WireDuplicate via_name via_wire)
         else Inr (PyInt (int (index cs via_wire) + 1)))
      else if via_wire \<in> set ls then
        (if count_list ls via_wire > 1 then Inl (WireDuplicate via_name via_wire)
         else Inr (PyInt (int (index ls via_wire) + 1)))
      else Inr via_wire)"

text \<open>
  Lines 74 to 94: the \<open>if via_name in arrows ... elif via_name in self.cables\<close>
  statement. It returns the harness (only \<open>self.mates\<close> can have changed) and the
  value of the variable \<open>via_wire\<close>. Each of the six glyphs contains \<open>-\<close> or \<open>=\<close>, so
  with no attribute \<open>mates\<close> the branch raises \<open>AttributeError\<close> at the subscript
  assignment. \<open>print(self.mates)\<close> only writes to standard output.
\<close>

definition check_via ::
  "harness \<Rightarrow> string option \<Rightarrow> pyval \<Rightarrow> string \<Rightarrow> pyval \<Rightarrow> string option \<Rightarrow> pyval
    \<Rightarrow> error + harness \<times> pyval" where
  "check_via h fn fp via_name via_wire tn tp =
     (if via_name \<in> set arrows then
        (case mates h of
           None \<Rightarrow> Inl (AttributeError ''mates'')
         | Some m \<Rightarrow>
            if CHR ''-'' \<in> set via_name
            then Inr (h\<lparr>mates := Some (AList.update (MateKey4 fn fp tn tp) via_name m)\<rparr>, via_wire)
            else if CHR ''='' \<in> set via_name
            then Inr (h\<lparr>mates := Some (AList.update (MateKey2 fn tn) via_name m)\<rparr>, via_wire)
            else Inr (h, via_wire))
      else
        (case map_of (cables h) via_name of
           None \<Rightarrow> Inr (h, via_wire)
         | Some c \<Rightarrow>
            (case resolve_wire c via_name via_wire of
               Inl e \<Rightarrow> Inl e
             | Inr w \<Rightarrow> Inr (h, w))))"

text \<open>
  Modelled from the spec: \<open>Cable.connect\<close> and \<open>Connector.activate_pin\<close> are methods of
  \<open>wireviz.DataClasses\<close>, which is not under \<open>src/\<close>. The spec (4.2, step 4): "Record
  the connection on the cable (append to \<open>connections\<close>); mark both resolved endpoint
  pins activated on their respective connectors (\<open>visible_pins[pin] = true\<close>)", a
  connection being the tuple (from_name, from_port, via_wire_index, to_name, to_port).
\<close>

definition cable_connect ::
  "cable \<Rightarrow> string option \<Rightarrow> pyval \<Rightarrow> pyval \<Rightarrow> string option \<Rightarrow> pyval \<Rightarrow> cable" where
  "cable_connect c fn fp via tn tp =
     c\<lparr>connections := connections c @
         [\<lparr>from_name = fn, from_port = fp, via_port = via, to_name = tn, to_port = tp\<rparr>]\<rparr>"

definition activate_pin :: "connector \<Rightarrow> pyval \<Rightarrow> connector" where
  "activate_pin c pin = c\<lparr>visible_pins := AList.update pin True (visible_pins c)\<rparr>"

text \<open>
  Lines 97 to 100: \<open>if name in self.connectors: self.connectors[name].activate_pin(pin)\<close>.
\<close>

definition activate :: "harness \<Rightarrow> string option \<Rightarrow> pyval \<Rightarrow> harness" where
  "activate h nm pin =
     (case nm of
        None \<Rightarrow> h
      | Some n \<Rightarrow>
         (case map_of (connectors h) n of
            None \<Rightarrow> h
          | Some c \<Rightarrow> h\<lparr>connectors := AList.update n (activate_pin c pin) (connectors h)\<rparr>))"

text \<open>
  \<open>Harness.connect\<close>. The result is the exception raised, if any, and the harness as
  the call leaves it. The access \<open>self.cables[via_name]\<close> of line 96 is outside the
  \<open>if\<close> statement and runs on every path that has not raised.
\<close>

definition connect ::
  "harness \<Rightarrow> string option \<Rightarrow> pyval \<Rightarrow> string \<Rightarrow> pyval \<Rightarrow> string option \<Rightarrow> pyval
    \<Rightarrow> error option \<times> harness" where
  "connect h fn fp via_name via_wire tn tp =
     (case check_endpoints h fn fp tn tp of
        Inl e \<Rightarrow> (Some e, h)
      | Inr (from_pin, to_pin) \<Rightarrow>
         (case check_via h fn from_pin via_name via_wire tn to_pin of
            Inl e \<Rightarrow> (Some e, h)
          | Inr (h1, w) \<Rightarrow>
             (case map_of (cables h1) via_name of
                None \<Rightarrow> (Some (KeyError (Some via_name)), h1)
              | Some c \<Rightarrow>
                 let h2 = h1\<lparr>cables :=
                            AList.update via_name (cable_connect c fn from_pin w tn to_pin) (cables h1)\<rparr>;
                     h3 = activate h2 fn from_pin
                 in (None, activate h3 tn to_pin))))"

section \<open>create_graph\<close>

text \<open>
  \<open>str\<close> of an integer and of a token, as the f-strings of \<open>create_graph\<close> format them,
  and \<open>sep.join(xs)\<close>.
\<close>

fun str_nat :: "nat \<Rightarrow> string" where
  "str_nat n =
     (if n < 10 then [''0123456789'' ! n]
      else str_nat (n div 10) @ [''0123456789'' ! (n mod 10)])"

declare str_nat.simps [simp del]

definition str_int :: "int \<Rightarrow> string" where
  "str_int i = (if i < 0 then CHR ''-'' # str_nat (nat (- i)) else str_nat (nat i))"

fun str_pyval :: "pyval \<Rightarrow> string" where
  "str_pyval PyNone = ''None''"
| "str_pyval (PyInt i) = str_int i"
| "str_pyval (PyStr s) = s"

fun join :: "string \<Rightarrow> string list \<Rightarrow> string" where
  "join sep [] = []"
| "join sep [x] = x"
| "join sep (x # y # ys) = x @ sep @ join sep (y # ys)"

text \<open>
  \<open>xs[i]\<close> for a list: a negative index counts from the end, and an index outside the
  list raises \<open>IndexError\<close>.
\<close>

definition py_nth :: "'a list \<Rightarrow> int \<Rightarrow> error + 'a" where
  "py_nth xs i =
     (if 0 \<le> i \<and> i < int (length xs) then Inr (xs ! nat i)
      else if i < 0 \<and> - int (length xs) \<le> i then Inr (xs ! nat (i + int (length xs)))
      else Inl IndexError)"

text \<open>
  A \<open>for\<close> loop whose body may raise: the first exception ends the loop.
\<close>

fun for_each :: "('s \<Rightarrow> 'a \<Rightarrow> error + 's) \<Rightarrow> 's \<Rightarrow> 'a list \<Rightarrow> error + 's" where
  "for_each f s [] = Inr s"
| "for_each f s (x # xs) = (case f s x of Inl e \<Rightarrow> Inl e | Inr s' \<Rightarrow> for_each f s' xs)"

text \<open>
  What \<open>create_graph\<close> takes from other modules, none of them under \<open>src/\<close>:
  \<open>APP_NAME\<close>, \<open>__version__\<close> and \<open>APP_URL\<close> of the package, and
  \<open>get_color_hex\<close> and \<open>default_color\<close> of \<open>wv_colors\<close>. \<open>get_color_hex\<close> is
  called with \<open>pad=pad\<close> for the wires and without \<open>pad\<close> for the shield: its second
  argument is \<open>Some b\<close> for \<open>pad=b\<close> and \<open>None\<close> when the keyword is left out. The other
  helpers called by \<open>create_graph\<close> only produce the text of the labels, which is not
  modelled; all helpers are taken to return. The attributes that only supply text for a
  label have the types of the spec's data model (\<open>gauge_unit\<close> a string, \<open>length\<close> a
  number), so that formatting them does not raise.
\<close>

record externals =
  APP_NAME :: string
  version :: string
  APP_URL :: string
  get_color_hex :: "string option \<Rightarrow> bool option \<Rightarrow> string list"
  default_color :: string

text \<open>
  \<open>self.connectors[nm].attr = ...\<close> and \<open>self.connectors[nm].activate_pin(...)\<close>: the
  subscript raises \<open>KeyError\<close> when \<open>nm\<close> is not a key.
\<close>

definition update_connector ::
  "(string \<times> connector) list \<Rightarrow> string option \<Rightarrow> (connector \<Rightarrow> connector)
    \<Rightarrow> error + (string \<times> connector) list" where
  "update_connector cs nm f =
     (case nm of
        None \<Rightarrow> Inl (KeyError None)
      | Some n \<Rightarrow>
         (case map_of cs n of
            None \<Rightarrow> Inl (KeyError (Some n))
          | Some c \<Rightarrow> Inr (AList.update n (f c) cs)))"

text \<open>Lines 121 to 125, for one connection of a cable.\<close>

definition prepare_connection ::
  "(string \<times> connector) list \<Rightarrow> connection \<Rightarrow> error + (string \<times> connector) list" where
  "prepare_connection cs conn =
     (case (if from_port conn \<noteq> PyNone
            then update_connector cs (from_name conn) (\<lambda>c. c\<lparr>ports_right := True\<rparr>)
            else Inr cs) of
        Inl e \<Rightarrow> Inl e
      | Inr cs1 \<Rightarrow>
         if to_port conn \<noteq> PyNone
         then update_connector cs1 (to_name conn) (\<lambda>c. c\<lparr>ports_left := True\<rparr>)
         else Inr cs1)"

text \<open>Lines 126 to 130, for one pin-level mate.\<close>

definition prepare_mate ::
  "(string \<times> connector) list \<Rightarrow> mate_pin \<Rightarrow> error + (string \<times> connector) list" where
  "prepare_mate cs m =
     (case update_connector cs (Some (mate_from_name m)) (\<lambda>c. c\<lparr>ports_right := True\<rparr>) of
        Inl e \<Rightarrow> Inl e
      | Inr cs1 \<Rightarrow>
     (case update_connector cs1 (Some (mate_from_name m)) (\<lambda>c. activate_pin c (mate_from_port m)) of
        Inl e \<Rightarrow> Inl e
      | Inr cs2 \<Rightarrow>
     (case update_connector cs2 (Some (mate_to_name m)) (\<lambda>c. c\<lparr>ports_left := True\<rparr>) of
        Inl e \<Rightarrow> Inl e
      | Inr cs3 \<Rightarrow>
         update_connector cs3 (Some (mate_to_name m)) (\<lambda>c. activate_pin c (mate_to_port m)))))"

text \<open>
  Lines 119 to 130: the port sides of the connectors, from the recorded connections of
  every cable (in the order of the dict, then of each \<open>connections\<close> list) and from the
  pin-level mates.
\<close>

definition prepare_ports :: "harness \<Rightarrow> error + harness" where
  "prepare_ports h =
     (case for_each prepare_connection (connectors h)
             (concat (map (\<lambda>(n, c). connections c) (cables h))) of
        Inl e \<Rightarrow> Inl e
      | Inr cs1 \<Rightarrow>
         (case for_each prepare_mate cs1 (mates_pin h) of
            Inl e \<Rightarrow> Inl e
          | Inr cs2 \<Rightarrow> Inr (h\<lparr>connectors := cs2\<rparr>)))"

text \<open>
  The body of the graph, in the order of the calls on \<open>dot\<close>: \<open>dot.body.append\<close> of a
  comment line, \<open>dot.attr(kind, ...)\<close> with its keyword arguments, \<open>dot.node(name, ...)\<close>
  with its keyword arguments other than \<open>label\<close> (the text of the label is built by
  helpers of other modules and is not modelled; the bars of the wires, which are part of
  the label of a cable, are kept beside the body), and \<open>dot.edge\<close>.
\<close>

datatype stmt =
    Comment string
  | Attr string "(string \<times> string) list"
  | Node string "(string \<times> string) list"
  | Edge string string

text \<open>Lines 103 to 117.\<close>

definition graph_header :: "externals \<Rightarrow> stmt list" where
  "graph_header ext =
     [Comment (''// Graph generated by '' @ APP_NAME ext @ '' '' @ version ext),
      Comment (''// '' @ APP_URL ext),
      Attr ''graph'' [(''rankdir'', ''LR''), (''ranksep'', ''2''), (''bgcolor'', ''white''),
                      (''nodesep'', ''0.33''), (''fontname'', ''arial'')],
      Attr ''node'' [(''shape'', ''record''), (''style'', ''filled''), (''fillcolor'', ''white''),
                     (''fontname'', ''arial'')],
      Attr ''edge'' [(''style'', ''bold''), (''fontname'', ''arial'')]]"

text \<open>Lines 194 to 196: the self-edge of one loop, on the chosen side.\<close>

definition loop_edge :: "connector \<Rightarrow> string \<Rightarrow> string \<Rightarrow> pyval \<times> pyval \<Rightarrow> stmt" where
  "loop_edge c loop_side loop_dir loop =
     Edge (connector.name c @ '':p'' @ str_pyval (fst loop) @ loop_side @ '':'' @ loop_dir)
          (connector.name c @ '':p'' @ str_pyval (snd loop) @ loop_side @ '':'' @ loop_dir)"

text \<open>Line 182: the node of a connector.\<close>

definition connector_node :: "connector \<Rightarrow> stmt" where
  "connector_node c =
     Node (connector.name c)
       [(''shape'', ''none''), (''margin'', ''0''), (''style'', ''filled''), (''fillcolor'', ''white'')]"

text \<open>Lines 182 to 196: the node of one connector and its loops.\<close>

definition connector_stmts :: "connector \<Rightarrow> error + stmt list" where
  "connector_stmts c =
     (if length (loops c) > 0 then
        (if ports_left c then
           Inr (connector_node c # Attr ''edge'' [(''color'', ''#000000:#ffffff:#000000'')]
                # map (loop_edge c ''l'' ''w'') (loops c))
         else if ports_right c then
           Inr (connector_node c # Attr ''edge'' [(''color'', ''#000000:#ffffff:#000000'')]
                # map (loop_edge c ''r'' ''e'') (loops c))
         else Inl NoSideForLoops)
      else Inr [connector_node c])"

text \<open>Line 132: the loop over \<open>self.connectors.values()\<close>.\<close>

definition connectors_stage :: "connector list \<Rightarrow> error + stmt list" where
  "connectors_stage cs =
     for_each (\<lambda>ss c. case connector_stmts c of Inl e \<Rightarrow> Inl e | Inr ss' \<Rightarrow> Inr (ss @ ss'))
       [] cs"

text \<open>
  Line 201: \<open>pad\<close> is computed once, over the colors of every cable of the harness.
\<close>

definition pad :: "harness \<Rightarrow> bool" where
  "pad h = list_ex (\<lambda>(n, c). list_ex (\<lambda>colorstr. length colorstr > 2) (colors c)) (cables h)"

fun zip_longest :: "'a list \<Rightarrow> 'b list \<Rightarrow> ('a option \<times> 'b option) list" where
  "zip_longest [] [] = []"
| "zip_longest (x # xs) [] = (Some x, None) # zip_longest xs []"
| "zip_longest [] (y # ys) = (None, Some y) # zip_longest [] ys"
| "zip_longest (x # xs) (y # ys) = (Some x, Some y) # zip_longest xs ys"

text \<open>
  Lines 259 to 264: the bar of wire \<open>i\<close>, the cell with port \<open>w\<close> followed by \<open>i\<close>, of
  the given height, holding one row per entry of \<open>bgcolors\<close>, reversed, an empty entry
  being shown in the default color.
\<close>

record wire_bar =
  port :: string
  height :: nat
  rows :: "string list"

definition bgcolors :: "externals \<Rightarrow> bool \<Rightarrow> string option \<Rightarrow> string list" where
  "bgcolors ext padv connection_color =
     [''#000000''] @ get_color_hex ext connection_color (Some padv) @ [''#000000'']"

definition wire_bar_of :: "externals \<Rightarrow> bool \<Rightarrow> nat \<Rightarrow> string option \<Rightarrow> wire_bar" where
  "wire_bar_of ext padv i connection_color =
     \<lparr> port = ''w'' @ str_nat i,
       height = 2 * length (bgcolors ext padv connection_color),
       rows = map (\<lambda>bgcolor. if bgcolor \<noteq> [] then bgcolor else default_color ext)
                  (rev (bgcolors ext padv connection_color)) \<rparr>"

text \<open>
  Lines 268 to 275, for wire \<open>i\<close> of a bundle: the subscripts \<open>cable.pn[i - 1]\<close>,
  \<open>cable.manufacturer[i - 1]\<close> and \<open>cable.mpn[i - 1]\<close>, evaluated in this order for the
  attributes that are lists, raise \<open>IndexError\<close> on a list shorter than \<open>i\<close>. The texts
  go into the label.
\<close>

definition per_wire_entry :: "part_info \<Rightarrow> nat \<Rightarrow> error option" where
  "per_wire_entry p i =
     (case p of
        Single s \<Rightarrow> None
      | PerWire l \<Rightarrow> (case py_nth l (int i - 1) of Inl e \<Rightarrow> Some e | Inr s \<Rightarrow> None))"

definition bundle_row :: "cable \<Rightarrow> nat \<Rightarrow> error option" where
  "bundle_row c i =
     (if category c = ''bundle'' then
        (case per_wire_entry (cable.pn c) i of
           Some e \<Rightarrow> Some e
         | None \<Rightarrow>
            (case per_wire_entry (cable.manufacturer c) i of
               Some e \<Rightarrow> Some e
             | None \<Rightarrow> per_wire_entry (cable.mpn c) i))
      else None)"

text \<open>
  Lines 240 to 285: the loop over \<open>enumerate(zip_longest(cable.colors, cable.wirelabels), 1)\<close>,
  which builds one bar per wire and then the row of a bundle's wire.
\<close>

definition wire_table :: "externals \<Rightarrow> bool \<Rightarrow> cable \<Rightarrow> error + wire_bar list" where
  "wire_table ext padv c =
     for_each
       (\<lambda>bars (i, (connection_color, wirelabel)).
          case bundle_row c i of
            Some e \<Rightarrow> Inl e
          | None \<Rightarrow> Inr (bars @ [wire_bar_of ext padv i connection_color]))
       []
       (zip [1 ..< Suc (length (zip_longest (colors c) (wirelabels c)))]
            (zip_longest (colors c) (wirelabels c)))"

text \<open>
  Lines 287 to 301: the row of the shield. The truth value of \<open>cable.shield\<close> is that of
  the bool, or that the string is not empty. For a string the local variable
  \<open>shield_color_hex\<close> is assigned, from the first entry of
  \<open>get_color_hex(cable.shield)\<close>; the result is the value of the variable after the
  block, \<open>None\<close> while it has never been assigned.
\<close>

definition shield_row :: "externals \<Rightarrow> cable \<Rightarrow> string option \<Rightarrow> error + string option" where
  "shield_row ext c shield_color_hex =
     (case shield c of
        ShieldBool b \<Rightarrow> Inr shield_color_hex
      | ShieldStr s \<Rightarrow>
         if s \<noteq> [] then
           (case py_nth (get_color_hex ext (Some s) None) 0 of
              Inl e \<Rightarrow> Inl e
            | Inr x \<Rightarrow> Inr (Some x))
         else Inr shield_color_hex)"

text \<open>
  Lines 310 to 314: the color of the edges of one connection. A wire is an \<open>int\<close>
  \<open>via_port\<close>, whose color is \<open>cable.colors[via_port - 1]\<close>; anything else is the
  shield, which reads the variable \<open>shield_color_hex\<close> when \<open>cable.shield\<close> is a string.
\<close>

definition connection_color_attr ::
  "externals \<Rightarrow> bool \<Rightarrow> cable \<Rightarrow> string option \<Rightarrow> connection \<Rightarrow> error + stmt" where
  "connection_color_attr ext padv c shield_color_hex conn =
     (case via_port conn of
        PyInt v \<Rightarrow>
          (case py_nth (colors c) (v - 1) of
             Inl e \<Rightarrow> Inl e
           | Inr col \<Rightarrow>
               Inr (Attr ''edge''
                      [(''color'', join '':'' ([''#000000''] @ get_color_hex ext (Some col) (Some padv)
                                               @ [''#000000'']))]))
      | _ \<Rightarrow>
          (case shield c of
             ShieldStr s \<Rightarrow>
               (case shield_color_hex of
                  None \<Rightarrow> Inl (UnboundLocalError ''shield_color_hex'')
                | Some x \<Rightarrow> Inr (Attr ''edge'' [(''color'', join '':'' [''#000000'', x, ''#000000''])]))
           | ShieldBool b \<Rightarrow> Inr (Attr ''edge'' [(''color'', ''#000000'')])))"

text \<open>
  Lines 321 to 329 and 337 to 345: the text that replaces the placeholder beside the wire
  goes into the label; what can raise is \<open>connector.pins.index(port)\<close>, with
  \<open>ValueError\<close> for a port that is no pin, and the subscript of \<open>pinlabels\<close>.
\<close>

definition port_info :: "connector \<Rightarrow> pyval \<Rightarrow> error option" where
  "port_info c p =
     (if show_name c \<and> pinlabels c \<noteq> [] then
        (if p \<notin> set (pins c) then Some ValueError
         else (case py_nth (pinlabels c) (int (index (pins c) p)) of
                 Inl e \<Rightarrow> Some e
               | Inr l \<Rightarrow> None))
      else None)"

text \<open>\<open>self.connectors[nm]\<close> as an expression.\<close>

definition get_connector :: "(string \<times> connector) list \<Rightarrow> string option \<Rightarrow> error + connector" where
  "get_connector cs nm =
     (case nm of
        None \<Rightarrow> Inl (KeyError None)
      | Some n \<Rightarrow> (case map_of cs n of None \<Rightarrow> Inl (KeyError (Some n)) | Some c \<Rightarrow> Inr c))"

text \<open>\<open>str\<close> of a name that may be \<open>None\<close>.\<close>

definition str_name :: "string option \<Rightarrow> string" where
  "str_name nm = (case nm of None \<Rightarrow> ''None'' | Some n \<Rightarrow> n)"

text \<open>Lines 315 to 330: the edge from the "from" connector to the wire.\<close>

definition left_edge ::
  "(string \<times> connector) list \<Rightarrow> cable \<Rightarrow> connection \<Rightarrow> error + stmt list" where
  "left_edge cs c conn =
     (if from_port conn \<noteq> PyNone then
        (case get_connector cs (from_name conn) of
           Inl e \<Rightarrow> Inl e
         | Inr from_connector \<Rightarrow>
            (case port_info from_connector (from_port conn) of
               Some e \<Rightarrow> Inl e
             | None \<Rightarrow>
                Inr [Edge (str_name (from_name conn)
                           @ (if style from_connector \<noteq> ''simple''
                              then '':p'' @ str_pyval (from_port conn) @ ''r'' else [])
                           @ '':e'')
                          (cable.name c @ '':w'' @ str_pyval (via_port conn) @ '':w'')]))
      else Inr [])"

text \<open>Lines 331 to 346: the edge from the wire to the "to" connector.\<close>

definition right_edge ::
  "(string \<times> connector) list \<Rightarrow> cable \<Rightarrow> connection \<Rightarrow> error + stmt list" where
  "right_edge cs c conn =
     (if to_port conn \<noteq> PyNone then
        (case get_connector cs (to_name conn) of
           Inl e \<Rightarrow> Inl e
         | Inr to_connector \<Rightarrow>
            (case port_info to_connector (to_port conn) of
               Some e \<Rightarrow> Inl e
             | None \<Rightarrow>
                Inr [Edge (cable.name c @ '':w'' @ str_pyval (via_port conn) @ '':e'')
                          (str_name (to_name conn)
                           @ (if style to_connector \<noteq> ''simple''
                              then '':p'' @ str_pyval (to_port conn) @ ''l'' else [])
                           @ '':w'')]))
      else Inr [])"

text \<open>Lines 309 to 346, for one connection: the color, then the two edges.\<close>

definition connection_stmts ::
  "externals \<Rightarrow> (string \<times> connector) list \<Rightarrow> bool \<Rightarrow> cable \<Rightarrow> string option \<Rightarrow> connection
    \<Rightarrow> error + stmt list" where
  "connection_stmts ext cs padv c shield_color_hex conn =
     (case connection_color_attr ext padv c shield_color_hex conn of
        Inl e \<Rightarrow> Inl e
      | Inr a \<Rightarrow>
         (case left_edge cs c conn of
            Inl e \<Rightarrow> Inl e
          | Inr l \<Rightarrow>
             (case right_edge cs c conn of
                Inl e \<Rightarrow> Inl e
              | Inr r \<Rightarrow> Inr (a # l @ r))))"

text \<open>Line 349: the node of a cable.\<close>

definition cable_node :: "cable \<Rightarrow> stmt" where
  "cable_node c =
     Node (cable.name c)
       [(''shape'', ''box''),
        (''style'', if category c = ''bundle'' then ''filled,dashed'' else []),
        (''margin'', ''0''), (''fillcolor'', ''white'')]"

text \<open>
  Lines 203 to 350, for one cable: the wire table, the shield row, the edges of the
  connections and the node. The result is the variable \<open>shield_color_hex\<close>, the
  statements added to the body, and the bars of the cable.
\<close>

definition cable_stmts ::
  "externals \<Rightarrow> (string \<times> connector) list \<Rightarrow> bool \<Rightarrow> string option \<Rightarrow> cable
    \<Rightarrow> error + string option \<times> stmt list \<times> wire_bar list" where
  "cable_stmts ext cs padv shield_color_hex c =
     (case wire_table ext padv c of
        Inl e \<Rightarrow> Inl e
      | Inr bars \<Rightarrow>
         (case shield_row ext c shield_color_hex of
            Inl e \<Rightarrow> Inl e
          | Inr sch \<Rightarrow>
             (case for_each
                     (\<lambda>ss conn. case connection_stmts ext cs padv c sch conn of
                                   Inl e \<Rightarrow> Inl e
                                 | Inr ss' \<Rightarrow> Inr (ss @ ss'))
                     [] (connections c) of
                Inl e \<Rightarrow> Inl e
              | Inr ss \<Rightarrow> Inr (sch, ss @ [cable_node c], bars))))"

text \<open>
  Line 203: the loop over \<open>self.cables.values()\<close>; the variable \<open>shield_color_hex\<close>
  lives on from one cable to the next.
\<close>

fun cables_stage ::
  "externals \<Rightarrow> (string \<times> connector) list \<Rightarrow> bool \<Rightarrow> string option \<Rightarrow> cable list
    \<Rightarrow> error + stmt list \<times> (string \<times> wire_bar list) list" where
  "cables_stage ext cs padv shield_color_hex [] = Inr ([], [])"
| "cables_stage ext cs padv shield_color_hex (c # rest) =
     (case cable_stmts ext cs padv shield_color_hex c of
        Inl e \<Rightarrow> Inl e
      | Inr (sch, ss, bars) \<Rightarrow>
         (case cables_stage ext cs padv sch rest of
            Inl e \<Rightarrow> Inl e
          | Inr (ss', tables) \<Rightarrow> Inr (ss @ ss', (cable.name c, bars) # tables)))"

text \<open>
  Lines 352 to 365, for one pin-level mate. The variable \<open>dir\<close> is assigned for the three
  dashed glyphs only and lives on from one mate to the next; reading it unassigned
  raises \<open>UnboundLocalError\<close>. \<open>print\<close> only writes to standard output. The result is
  the variable \<open>dir\<close> and the statements added.
\<close>

definition mate_stmts ::
  "(string \<times> connector) list \<Rightarrow> string option \<Rightarrow> mate_pin \<Rightarrow> error + string option \<times> stmt list" where
  "mate_stmts cs dir m =
     (let dir' = (if shape m = ''<--'' then Some ''back''
                  else if shape m = ''-->'' then Some ''forward''
                  else if shape m = ''<->'' then Some ''both''
                  else dir)
      in case dir' of
           None \<Rightarrow> Inl (UnboundLocalError ''dir'')
         | Some d \<Rightarrow>
            (case get_connector cs (Some (mate_from_name m)) of
               Inl e \<Rightarrow> Inl e
             | Inr fc \<Rightarrow>
                (case get_connector cs (Some (mate_to_name m)) of
                   Inl e \<Rightarrow> Inl e
                 | Inr tc \<Rightarrow>
                    Inr (dir',
                         [Attr ''edge'' [(''color'', ''#000000''), (''style'', ''dashed''), (''dir'', d)],
                          Edge (mate_from_name m
                                @ (if style fc \<noteq> ''simple''
                                   then '':p'' @ str_pyval (mate_from_port m) @ ''r'' else [])
                                @ '':e'')
                               (mate_to_name m
                                @ (if style tc \<noteq> ''simple''
                                   then '':p'' @ str_pyval (mate_to_port m) @ ''l'' else [])
                                @ '':w'')]))))"

fun mates_stage ::
  "(string \<times> connector) list \<Rightarrow> string option \<Rightarrow> mate_pin list \<Rightarrow> error + stmt list" where
  "mates_stage cs dir [] = Inr []"
| "mates_stage cs dir (m # rest) =
     (case mate_stmts cs dir m of
        Inl e \<Rightarrow> Inl e
      | Inr (dir', ss) \<Rightarrow>
         (case mates_stage cs dir' rest of
            Inl e \<Rightarrow> Inl e
          | Inr ss' \<Rightarrow> Inr (ss @ ss')))"

text \<open>
  \<open>Harness.create_graph\<close>: the port sides, the header, the connectors with their loops,
  \<open>pad\<close>, the cables with their wire tables and edges, and the mates. The result is
  \<open>self\<close> as the first pass leaves it and the graph: the body in the order of the calls,
  and the bars of every cable.
\<close>

record graph =
  body :: "stmt list"
  wire_tables :: "(string \<times> wire_bar list) list"

definition create_graph :: "externals \<Rightarrow> harness \<Rightarrow> error + harness \<times> graph" where
  "create_graph ext h =
     (case prepare_ports h of
        Inl e \<Rightarrow> Inl e
      | Inr h1 \<Rightarrow>
         (case connectors_stage (map snd (connectors h1)) of
            Inl e \<Rightarrow> Inl e
          | Inr ss \<Rightarrow>
             (case cables_stage ext (connectors h1) (pad h1) None (map snd (cables h1)) of
                Inl e \<Rightarrow> Inl e
              | Inr (cs, tables) \<Rightarrow>
                 (case mates_stage (connectors h1) None (mates_pin h1) of
                    Inl e \<Rightarrow> Inl e
                  | Inr ms \<Rightarrow>
                     Inr (h1, \<lparr> body = graph_header ext @ ss @ cs @ ms,
                                wire_tables = tables \<rparr>)))))"

section \<open>bom\<close>

text \<open>
  Lines 401 to 404. \<open>generate_bom\<close> belongs to \<open>wireviz.wv_bom\<close>, which is not under
  \<open>src/\<close>: it is the parameter \<open>gen\<close>. The result is the list returned and the harness
  with its cache.
\<close>

definition bom ::
  "(harness \<Rightarrow> (bom_key \<times> nat) list) \<Rightarrow> harness \<Rightarrow> (bom_key \<times> nat) list \<times> harness" where
  "bom gen h =
     (if priv_bom h = [] then (gen h, h\<lparr>priv_bom := gen h\<rparr>)
      else (priv_bom h, h))"

text \<open>
  Modelled from the spec: \<open>generate_bom\<close> (module \<open>wv_bom\<close>) is not under \<open>src/\<close>. The
  spec (4.4): it "groups connectors, cables, and additional items by a composite key
  (type/subtype/part numbers/manufacturer), summing quantities for identical keys", in
  "declaration order of first occurrence". A per-wire list enters the key as the
  concatenation of its entries. Used only to run \<open>bom\<close> on concrete harnesses.
\<close>

fun part_text :: "part_info \<Rightarrow> string" where
  "part_text (Single s) = s"
| "part_text (PerWire l) = concat l"

definition bom_keys :: "harness \<Rightarrow> bom_key list" where
  "bom_keys h =
     map (\<lambda>(n, c). BomKey ''Connector'' (connector.type c) (subtype c) (connector.pn c)
                      (connector.manufacturer c) (connector.mpn c)) (connectors h)
     @ map (\<lambda>(n, c). BomKey ''Cable'' (cable.type c) [] (part_text (cable.pn c))
                      (part_text (cable.manufacturer c)) (part_text (cable.mpn c))) (cables h)
     @ additional_bom_items h"

definition count_key :: "(bom_key \<times> nat) list \<Rightarrow> bom_key \<Rightarrow> (bom_key \<times> nat) list" where
  "count_key al k =
     (case map_of al k of None \<Rightarrow> al @ [(k, 1)] | Some q \<Rightarrow> AList.update k (Suc q) al)"

definition generate_bom :: "harness \<Rightarrow> (bom_key \<times> nat) list" where
  "generate_bom h = foldl count_key [] (bom_keys h)"

section \<open>Example harnesses\<close>

text \<open>
  Connectors and cables with the attributes the examples need; the other attributes are
  empty, the name of a connector is shown, and a cable has no shield.
\<close>

definition ex_connector ::
  "string \<Rightarrow> pyval list \<Rightarrow> pyval list \<Rightarrow> (pyval \<times> pyval) list \<Rightarrow> connector" where
  "ex_connector n ps ls lps =
     \<lparr> connector.name = n, pins = ps, pinlabels = ls, loops = lps, visible_pins = [],
       ports_left = False, ports_right = False, style = [], show_name = True,
       connector.type = [], subtype = [],
       connector.pn = [], connector.manufacturer = [], connector.mpn = [] \<rparr>"

definition ex_cable :: "string \<Rightarrow> string list \<Rightarrow> string list \<Rightarrow> cable" where
  "ex_cable n cs ls =
     \<lparr> cable.name = n, category = [], colors = cs, wirelabels = ls,
       shield = ShieldBool False, connections = [], cable.type = [],
       cable.pn = Single [], cable.manufacturer = Single [], cable.mpn = Single [] \<rparr>"

text \<open>
  Connectors \<open>A\<close> (pins 1, 2 with labels \<open>x\<close>, \<open>y\<close>) and \<open>B\<close> (pins 1, 2), and the
  cable \<open>W\<close> with colors \<open>RD\<close>, \<open>BK\<close>.
\<close>

definition ex_AB :: harness where
  "ex_AB =
     add_cable
       (add_connector
          (add_connector init ''A''
             (ex_connector ''A'' [PyInt 1, PyInt 2] [PyStr ''x'', PyStr ''y''] []))
          ''B'' (ex_connector ''B'' [PyInt 1, PyInt 2] [] []))
       ''W'' (ex_cable ''W'' [''RD'', ''BK''] [])"

text \<open>
  Connector \<open>X\<close> has pins \<open>a\<close>, \<open>b\<close> and the label \<open>b\<close> on both; connector \<open>Y\<close> has
  pins \<open>A\<close>, \<open>B\<close> labelled \<open>B\<close>, \<open>A\<close>; connector \<open>Z\<close> has pins 1, 2 and the label \<open>p\<close>
  on both.
\<close>

definition ex_X :: connector where
  "ex_X = ex_connector ''X'' [PyStr ''a'', PyStr ''b''] [PyStr ''b'', PyStr ''b''] []"

definition ex_Y :: connector where
  "ex_Y = ex_connector ''Y'' [PyStr ''A'', PyStr ''B''] [PyStr ''B'', PyStr ''A''] []"

definition ex_Z :: connector where
  "ex_Z = ex_connector ''Z'' [PyInt 1, PyInt 2] [PyStr ''p'', PyStr ''p''] []"

definition ex_XYZ :: harness where
  "ex_XYZ =
     add_cable
       (add_connector (add_connector (add_connector init ''X'' ex_X) ''Y'' ex_Y) ''Z'' ex_Z)
       ''W'' (ex_cable ''W'' [''RD'', ''BK''] [])"

text \<open>Connector \<open>L\<close> bridges its pins 1 and 2 and has no connection.\<close>

definition ex_loop :: harness where
  "ex_loop = add_connector init ''L'' (ex_connector ''L'' [PyInt 1, PyInt 2] [] [(PyInt 1, PyInt 2)])"

text \<open>
  Connector \<open>L\<close> with the same loop, wired through \<open>W\<close> as a "from" endpoint of wire 1
  and as a "to" endpoint of wire 2.
\<close>

definition ex_loop_wired :: harness where
  "ex_loop_wired =
     snd (connect
       (snd (connect
          (add_cable
             (add_connector ex_loop ''B'' (ex_connector ''B'' [PyInt 1, PyInt 2] [] []))
             ''W'' (ex_cable ''W'' [''RD'', ''BK''] []))
          (Some ''L'') (PyInt 1) ''W'' (PyInt 1) (Some ''B'') (PyInt 1)))
       (Some ''B'') (PyInt 2) ''W'' (PyInt 2) (Some ''L'') (PyInt 2))"

text \<open>The connector \<open>L\<close> of that harness once the port sides have been derived.\<close>

definition ex_L_wired :: connector where
  "ex_L_wired =
     (ex_connector ''L'' [PyInt 1, PyInt 2] [] [(PyInt 1, PyInt 2)])
       \<lparr>visible_pins := [(PyInt 1, True), (PyInt 2, True)], ports_left := True,
        ports_right := True\<rparr>"

text \<open>
  Stand-ins for what \<open>create_graph\<close> takes from other modules, to run the examples:
  this \<open>get_color_hex\<close> returns the code of red once, and three times when \<open>pad\<close> is
  set.
\<close>

definition ex_ext :: externals where
  "ex_ext =
     \<lparr> APP_NAME = ''WireViz'', version = ''0.3'', APP_URL = ''https://github.com/formatc1702/WireViz'',
       get_color_hex = (\<lambda>c p. if p = Some True then [''#ff0000'', ''#ff0000'', ''#ff0000'']
                               else [''#ff0000'']),
       default_color = ''#ffffff'' \<rparr>"



section \<open>Predicates of the statements\<close>

text \<open>
  The statements that a connector adds to the body; none when its loops have no side.
\<close>

definition stmts_of :: "connector \<Rightarrow> stmt list" where
  "stmts_of c = (case connector_stmts c of Inl e \<Rightarrow> [] | Inr ss \<Rightarrow> ss)"

text \<open>
  The exceptions that \<open>connect\<close> raises itself for a token it rejects.
\<close>

fun validation_error :: "error \<Rightarrow> bool" where
  "validation_error (PinAmbiguous n p) = True"
| "validation_error (PinDuplicate n p) = True"
| "validation_error (PinNotFound n p) = True"
| "validation_error (WireAmbiguous n p) = True"
| "validation_error (WireDuplicate n p) = True"
| "validation_error e = False"



section \<open>Evaluating the examples\<close>

text \<open>The definitions that the examples unfold.\<close>

lemmas ex_defs =
  init_def add_connector_def add_cable_def ex_connector_def ex_cable_def

lemmas connect_defs =
  connect_def check_endpoints_def check_endpoint_def check_via_def resolve_wire_def
  cable_connect_def activate_def activate_pin_def arrows_def

section \<open>Lemmas on the list operations\<close>

lemma index_less: "x \<in> set xs \<Longrightarrow> index xs x < length xs"
  by (induction xs) auto

lemma nth_index: "x \<in> set xs \<Longrightarrow> xs ! index xs x = x"
  by (induction xs) auto

lemma count_list_pos: "0 < count_list xs x \<Longrightarrow> x \<in> set xs"
  by (induction xs) (auto split: if_splits)

section \<open>connect: what an exception leaves behind\<close>

lemma check_via_state:
  "check_via h fn fp via w tn tp = Inr (h1, w') \<Longrightarrow>
     cables h1 = cables h \<and> connectors h1 = connectors h \<and> priv_bom h1 = priv_bom h
     \<and> (via \<notin> set arrows \<longrightarrow> h1 = h)"
  by (auto simp: check_via_def split: if_splits option.splits sum.splits)

lemma connect_error_cases:
  assumes "connect h fn fp via w tn tp = (Some e, h')"
  shows "(h' = h \<and> (check_endpoints h fn fp tn tp = Inl e \<or>
            (\<exists>r. check_endpoints h fn fp tn tp = Inr r
                 \<and> check_via h fn (fst r) via w tn (snd r) = Inl e)))
       \<or> (e = KeyError (Some via) \<and> cables h' = cables h \<and> connectors h' = connectors h)"
  using assms
  by (auto simp: connect_def Let_def split: sum.splits prod.splits option.splits
           dest: check_via_state)

text \<open>
  C5. When \<open>connect\<close> raises, no cable and no connector has changed: no connection record
  has been appended and no pin has been activated. When the exception is one of the
  validation errors (ambiguous reference, duplicate label, not found), the harness is
  the one the call started from.
\<close>

theorem connect_error_leaves_state:
  assumes "connect h fn fp via w tn tp = (Some e, h')"
  shows "cables h' = cables h \<and> connectors h' = connectors h
         \<and> (validation_error e \<longrightarrow> h' = h)"
  using connect_error_cases [OF assms] by auto

theorem connect_error_leaves_state_witness:
  "connect ex_AB (Some ''A'') (PyInt 3) ''W'' (PyInt 1) (Some ''B'') (PyInt 1)
     = (Some (PinNotFound ''A'' (PyInt 3)), ex_AB)
   \<and> validation_error (PinNotFound ''A'' (PyInt 3))
   \<and> cables ex_AB = cables ex_AB \<and> connectors ex_AB = connectors ex_AB"
proof -
  have run: "connect ex_AB (Some ''A'') (PyInt 3) ''W'' (PyInt 1) (Some ''B'') (PyInt 1)
     = (Some (PinNotFound ''A'' (PyInt 3)), ex_AB)"
    by (simp add: connect_def check_endpoints_def check_endpoint_def ex_AB_def add_cable_def
        add_connector_def init_def ex_connector_def ex_cable_def)
  from connect_error_leaves_state [OF run] run show ?thesis by simp
qed

section \<open>connect: a via name that is neither a glyph nor a cable\<close>

text \<open>
  C10. When \<open>via_name\<close> is none of the six glyphs and no key of \<open>self.cables\<close>, and the
  endpoint checks have passed, \<open>connect\<close> raises \<open>KeyError\<close> at
  \<open>self.cables[via_name]\<close> and leaves the harness as it was.
\<close>

theorem connect_unknown_via:
  assumes "via \<notin> set arrows" and "map_of (cables h) via = None"
    and "check_endpoints h fn fp tn tp = Inr r"
  shows "connect h fn fp via w tn tp = (Some (KeyError (Some via)), h)"
  using assms by (auto simp: connect_def check_via_def split: prod.splits)

theorem connect_unknown_via_witness:
  "''Q'' \<notin> set arrows \<and> map_of (cables ex_AB) ''Q'' = None
   \<and> check_endpoints ex_AB (Some ''A'') (PyInt 1) (Some ''B'') (PyInt 1) = Inr (PyInt 1, PyInt 1)
   \<and> connect ex_AB (Some ''A'') (PyInt 1) ''Q'' (PyInt 1) (Some ''B'') (PyInt 1)
       = (Some (KeyError (Some ''Q'')), ex_AB)"
proof -
  have a: "''Q'' \<notin> set arrows" by (simp add: arrows_def)
  have b: "map_of (cables ex_AB) ''Q'' = None"
    by (simp add: ex_AB_def add_cable_def add_connector_def init_def)
  have c: "check_endpoints ex_AB (Some ''A'') (PyInt 1) (Some ''B'') (PyInt 1)
             = Inr (PyInt 1, PyInt 1)"
    by (simp add: check_endpoints_def check_endpoint_def ex_AB_def add_cable_def
        add_connector_def init_def ex_connector_def)
  from connect_unknown_via [OF a b c] a b c show ?thesis by simp
qed

section \<open>connect: an arrow glyph as via name\<close>

text \<open>
  With a glyph as \<open>via_name\<close>, \<open>connect\<close> never returns normally unless a cable is
  declared under the glyph itself: it raises in the endpoint checks, or
  \<open>AttributeError\<close> at \<open>self.mates\<close>, or \<open>KeyError\<close> at \<open>self.cables[via_name]\<close>.
\<close>

lemma connect_arrow_raises:
  assumes "via \<in> set arrows" and "map_of (cables h) via = None"
  shows "fst (connect h fn fp via w tn tp) \<noteq> None"
  using assms
  by (auto simp: connect_def check_via_def arrows_def
           split: sum.splits prod.splits option.splits)

text \<open>
  C1. The call \<open>connect('A', 1, '<->', None, 'B', 1)\<close> on a harness built by
  \<open>__init__\<close>, \<open>add_connector\<close> and \<open>add_cable\<close> raises \<open>AttributeError\<close> and records
  no mate; on a harness that has been given an attribute \<open>mates\<close>, the same call stores
  the glyph there and then raises \<open>KeyError\<close> at \<open>self.cables['<->']\<close>.
\<close>

theorem connect_arrow_fails:
  "connect ex_AB (Some ''A'') (PyInt 1) ''<->'' PyNone (Some ''B'') (PyInt 1)
     = (Some (AttributeError ''mates''), ex_AB)
   \<and> connect (ex_AB\<lparr>mates := Some []\<rparr>) (Some ''A'') (PyInt 1) ''<->'' PyNone (Some ''B'') (PyInt 1)
     = (Some (KeyError (Some ''<->'')),
        ex_AB\<lparr>mates := Some [(MateKey4 (Some ''A'') (PyInt 1) (Some ''B'') (PyInt 1), ''<->'')]\<rparr>)"
  by (simp add: connect_def check_endpoints_def check_endpoint_def check_via_def ex_AB_def
      add_cable_def add_connector_def init_def ex_connector_def ex_cable_def arrows_def)

section \<open>connect: a wire token the cable does not have\<close>

text \<open>
  A token that is neither a color nor a wire label of the cable passes the wire check
  unchanged.
\<close>

lemma resolve_wire_unknown:
  "w \<notin> PyStr ` set (colors c) \<Longrightarrow> w \<notin> PyStr ` set (wirelabels c) \<Longrightarrow> resolve_wire c n w = Inr w"
  by (auto simp: resolve_wire_def Let_def)

text \<open>
  C2. The call \<open>connect('A', 1, 'W', 'VT', 'B', 1)\<close>, where the cable \<open>W\<close> has the colors
  \<open>RD\<close> and \<open>BK\<close> and no wire labels, raises nothing: it appends a connection whose wire
  is the token \<open>VT\<close> and activates both pins.
\<close>

theorem connect_unknown_wire_recorded:
  "connect ex_AB (Some ''A'') (PyInt 1) ''W'' (PyStr ''VT'') (Some ''B'') (PyInt 1)
     = (None,
        ex_AB\<lparr>connectors :=
                 [(''A'', (ex_connector ''A'' [PyInt 1, PyInt 2] [PyStr ''x'', PyStr ''y''] [])
                            \<lparr>visible_pins := [(PyInt 1, True)]\<rparr>),
                  (''B'', (ex_connector ''B'' [PyInt 1, PyInt 2] [] [])
                            \<lparr>visible_pins := [(PyInt 1, True)]\<rparr>)],
              cables :=
                 [(''W'', (ex_cable ''W'' [''RD'', ''BK''] [])
                            \<lparr>connections :=
                                [\<lparr>from_name = Some ''A'', from_port = PyInt 1,
                                  via_port = PyStr ''VT'', to_name = Some ''B'',
                                  to_port = PyInt 1\<rparr>]\<rparr>)]\<rparr>)"
  by (simp add: connect_def check_endpoints_def check_endpoint_def check_via_def
      resolve_wire_def cable_connect_def activate_def activate_pin_def ex_AB_def
      add_cable_def add_connector_def init_def ex_connector_def ex_cable_def arrows_def)


section \<open>create_graph: loops\<close>

lemma for_each_stmts_error:
  assumes "c \<in> set cs" and "connector_stmts c = Inl e"
    and "\<And>c' e'. connector_stmts c' = Inl e' \<Longrightarrow> e' = e"
  shows "for_each (\<lambda>ss c. case connector_stmts c of Inl e \<Rightarrow> Inl e | Inr ss' \<Rightarrow> Inr (ss @ ss'))
           acc cs = Inl e"
  using assms(1,2)
proof (induction cs arbitrary: acc)
  case Nil
  then show ?case by simp
next
  case (Cons d ds)
  show ?case
  proof (cases "connector_stmts d")
    case (Inl e')
    with assms(3) show ?thesis by simp
  next
    case (Inr ss')
    with Cons.prems have "c \<in> set ds" by auto
    with Cons.IH Cons.prems(2) Inr show ?thesis by simp
  qed
qed

lemma connector_stmts_error: "connector_stmts c = Inl e \<Longrightarrow> e = NoSideForLoops"
  by (simp add: connector_stmts_def split: if_splits)

lemma connectors_stage_no_side:
  assumes "c \<in> set cs" and "loops c \<noteq> []" and "\<not> ports_left c" and "\<not> ports_right c"
  shows "connectors_stage cs = Inl NoSideForLoops"
  unfolding connectors_stage_def
proof (rule for_each_stmts_error [OF assms(1)])
  show "connector_stmts c = Inl NoSideForLoops"
    using assms(2-4) by (simp add: connector_stmts_def)
  show "\<And>c' e'. connector_stmts c' = Inl e' \<Longrightarrow> e' = NoSideForLoops"
    by (rule connector_stmts_error)
qed

text \<open>
  C4. When, after the port sides have been derived, some connector with a loop has
  neither \<open>ports_left\<close> nor \<open>ports_right\<close> set, \<open>create_graph\<close> raises the exception
  "No side for loops" and returns no graph.
\<close>

theorem create_graph_no_side:
  assumes "prepare_ports h = Inr h1" and "(n, c) \<in> set (connectors h1)"
    and "loops c \<noteq> []" and "\<not> ports_left c" and "\<not> ports_right c"
  shows "create_graph ext h = Inl NoSideForLoops"
proof -
  from assms(2) have "c \<in> set (map snd (connectors h1))" by force
  from connectors_stage_no_side [OF this assms(3-5)] assms(1)
  show ?thesis by (simp add: create_graph_def)
qed

theorem create_graph_no_side_witness:
  "prepare_ports ex_loop = Inr ex_loop
   \<and> (''L'', ex_connector ''L'' [PyInt 1, PyInt 2] [] [(PyInt 1, PyInt 2)]) \<in> set (connectors ex_loop)
   \<and> create_graph ex_ext ex_loop = Inl NoSideForLoops"
proof -
  let ?c = "ex_connector ''L'' [PyInt 1, PyInt 2] [] [(PyInt 1, PyInt 2)]"
  have a: "prepare_ports ex_loop = Inr ex_loop"
    by (simp add: prepare_ports_def ex_loop_def add_connector_def init_def)
  have b: "(''L'', ?c) \<in> set (connectors ex_loop)"
    by (simp add: ex_loop_def add_connector_def init_def ex_connector_def)
  have c: "loops ?c \<noteq> []" "\<not> ports_left ?c" "\<not> ports_right ?c"
    by (simp_all add: ex_connector_def)
  from create_graph_no_side [OF a b c] a b show ?thesis by simp
qed

text \<open>
  The part of the body that the connectors add is, connector after connector, what
  \<open>connector_stmts\<close> returns for each; the header precedes it, and the statements of
  the cables and of the mates follow.
\<close>

lemma for_each_stmts_concat:
  "for_each (\<lambda>ss c. case connector_stmts c of Inl e \<Rightarrow> Inl e | Inr ss' \<Rightarrow> Inr (ss @ ss'))
     acc cs = Inr res \<Longrightarrow> res = acc @ concat (map stmts_of cs)"
proof (induction cs arbitrary: acc)
  case Nil
  then show ?case by simp
next
  case (Cons d ds)
  then obtain sd where sd: "connector_stmts d = Inr sd"
    and rest: "for_each (\<lambda>ss c. case connector_stmts c of Inl e \<Rightarrow> Inl e | Inr ss' \<Rightarrow> Inr (ss @ ss'))
                 (acc @ sd) ds = Inr res"
    by (auto split: sum.splits)
  from Cons.IH [OF rest] sd show ?case by (simp add: stmts_of_def)
qed

lemma create_graph_body:
  assumes "create_graph ext h = Inr (h1, g)"
  shows "\<exists>rest. body g = graph_header ext @ concat (map stmts_of (map snd (connectors h1))) @ rest"
proof -
  from assms obtain ss cs ms tables where
    stage: "connectors_stage (map snd (connectors h1)) = Inr ss"
    and g: "g = \<lparr> body = graph_header ext @ ss @ cs @ ms, wire_tables = tables \<rparr>"
    by (auto simp: create_graph_def split: sum.splits prod.splits)
  from stage have "ss = concat (map stmts_of (map snd (connectors h1)))"
    unfolding connectors_stage_def using for_each_stmts_concat by fastforce
  with g show ?thesis by simp
qed



text \<open>
  The harness in which \<open>L\<close> is wired on both sides compiles, and \<open>L\<close> is the connector
  above once the port sides have been derived.
\<close>

lemma create_graph_loop_wired:
  "\<exists>h1 g. create_graph ex_ext ex_loop_wired = Inr (h1, g)
     \<and> map_of (connectors h1) ''L'' = Some ex_L_wired
     \<and> body g = graph_header ex_ext
          @ [Node ''L'' [(''shape'', ''none''), (''margin'', ''0''), (''style'', ''filled''),
                         (''fillcolor'', ''white'')],
             Attr ''edge'' [(''color'', ''#000000:#ffffff:#000000'')],
             Edge ''L:p1l:w'' ''L:p2l:w'',
             Node ''B'' [(''shape'', ''none''), (''margin'', ''0''), (''style'', ''filled''),
                         (''fillcolor'', ''white'')],
             Attr ''edge'' [(''color'', ''#000000:#ff0000:#000000'')],
             Edge ''L:p1r:e'' ''W:w1:w'', Edge ''W:w1:e'' ''B:p1l:w'',
             Attr ''edge'' [(''color'', ''#000000:#ff0000:#000000'')],
             Edge ''B:p2r:e'' ''W:w2:w'', Edge ''W:w2:e'' ''L:p2l:w'',
             Node ''W'' [(''shape'', ''box''), (''style'', []), (''margin'', ''0''),
                         (''fillcolor'', ''white'')]]"
  by (simp add: create_graph_def prepare_ports_def prepare_connection_def
      update_connector_def connectors_stage_def connector_stmts_def connector_node_def
      loop_edge_def pad_def cable_stmts_def wire_table_def bundle_row_def shield_row_def
      connection_stmts_def connection_color_attr_def py_nth_def left_edge_def right_edge_def
      get_connector_def port_info_def str_name_def cable_node_def
      ex_loop_wired_def ex_loop_def ex_L_wired_def ex_ext_def ex_defs connect_defs
      str_int_def str_nat.simps Let_def)

section \<open>create_graph: the padding of the wire bars\<close>












section \<open>connect: the checks of an endpoint\<close>

text \<open>
  The exception of an iteration depends on its connector and its token only, not on
  what the variables \<open>from_pin\<close> and \<open>to_pin\<close> hold.
\<close>

lemma check_endpoint_raises:
  assumes "map_of (connectors h) n = Some c"
  shows "(pin \<in> set (pins c) \<and> pin \<in> set (pinlabels c)
            \<and> index (pins c) pin \<noteq> index (pinlabels c) pin
          \<longrightarrow> check_endpoint h (Some n) pin fn tn r = Inl (PinAmbiguous n pin))
       \<and> (\<not> (pin \<in> set (pins c) \<and> index (pins c) pin \<noteq> index (pinlabels c) pin)
            \<and> 1 < count_list (pinlabels c) pin
          \<longrightarrow> check_endpoint h (Some n) pin fn tn r = Inl (PinDuplicate n pin))
       \<and> (pin \<notin> set (pins c) \<and> pin \<notin> set (pinlabels c)
          \<longrightarrow> check_endpoint h (Some n) pin fn tn r = Inl (PinNotFound n pin))"
  using assms count_list_pos [of "pinlabels c" pin]
  by (auto simp: check_endpoint_def)

lemma connect_from_error:
  "check_endpoint h fn fp fn tn (fp, tp) = Inl e \<Longrightarrow> connect h fn fp via w tn tp = (Some e, h)"
  by (simp add: connect_def check_endpoints_def)

lemma connect_to_error:
  "check_endpoint h fn fp fn tn (fp, tp) = Inr r \<Longrightarrow> check_endpoint h tn tp fn tn r = Inl e
     \<Longrightarrow> connect h fn fp via w tn tp = (Some e, h)"
  by (simp add: connect_def check_endpoints_def)

text \<open>
  C6, as the code has it. The endpoints are checked in the order from, to, and the second
  only when the first has passed. For the endpoint being checked, a declared connector
  \<open>c\<close> and its token \<open>pin\<close>, the checks come in this order: a token that is in \<open>pins\<close>
  and in \<open>pinlabels\<close> at different first positions raises the ambiguity error;
  otherwise a token that is in \<open>pinlabels\<close> more than once raises the duplicate error;
  and a token that is in neither list raises the not-found error. In each case the
  harness is unchanged.
\<close>

theorem connect_endpoint_checks:
  assumes "map_of (connectors h) n = Some c"
    and "(fn = Some n \<and> fp = pin)
         \<or> (tn = Some n \<and> tp = pin \<and> check_endpoint h fn fp fn tn (fp, tp) = Inr r)"
  shows "(pin \<in> set (pins c) \<and> pin \<in> set (pinlabels c)
            \<and> index (pins c) pin \<noteq> index (pinlabels c) pin
          \<longrightarrow> connect h fn fp via w tn tp = (Some (PinAmbiguous n pin), h))
       \<and> (\<not> (pin \<in> set (pins c) \<and> index (pins c) pin \<noteq> index (pinlabels c) pin)
            \<and> 1 < count_list (pinlabels c) pin
          \<longrightarrow> connect h fn fp via w tn tp = (Some (PinDuplicate n pin), h))
       \<and> (pin \<notin> set (pins c) \<and> pin \<notin> set (pinlabels c)
          \<longrightarrow> connect h fn fp via w tn tp = (Some (PinNotFound n pin), h))"
  using assms(2)
proof
  assume "fn = Some n \<and> fp = pin"
  with check_endpoint_raises [OF assms(1), of pin fn tn "(fp, tp)"]
  show ?thesis by (auto intro: connect_from_error)
next
  assume "tn = Some n \<and> tp = pin \<and> check_endpoint h fn fp fn tn (fp, tp) = Inr r"
  with check_endpoint_raises [OF assms(1), of pin fn tn r]
  show ?thesis by (auto intro: connect_to_error)
qed

theorem connect_endpoint_checks_witness:
  "map_of (connectors ex_XYZ) ''Z'' = Some ex_Z
   \<and> check_endpoint ex_XYZ (Some ''Z'') (PyInt 1) (Some ''Z'') (Some ''Z'') (PyInt 1, PyStr ''p'')
       = Inr (PyInt 1, PyStr ''p'')
   \<and> PyStr ''p'' \<notin> set (pins ex_Z) \<and> count_list (pinlabels ex_Z) (PyStr ''p'') = 2
   \<and> connect ex_XYZ (Some ''Z'') (PyInt 1) ''W'' (PyInt 1) (Some ''Z'') (PyStr ''p'')
       = (Some (PinDuplicate ''Z'' (PyStr ''p'')), ex_XYZ)"
proof -
  have a: "map_of (connectors ex_XYZ) ''Z'' = Some ex_Z"
    by (simp add: ex_XYZ_def ex_Z_def ex_defs)
  have b: "check_endpoint ex_XYZ (Some ''Z'') (PyInt 1) (Some ''Z'') (Some ''Z'')
             (PyInt 1, PyStr ''p'') = Inr (PyInt 1, PyStr ''p'')"
    by (simp add: check_endpoint_def ex_XYZ_def ex_Z_def ex_defs)
  have c: "PyStr ''p'' \<notin> set (pins ex_Z)" "count_list (pinlabels ex_Z) (PyStr ''p'') = 2"
    by (simp_all add: ex_Z_def ex_connector_def)
  from connect_endpoint_checks [OF a, of "Some ''Z''" "PyInt 1" "PyStr ''p''" "Some ''Z''"
      "PyStr ''p''" "(PyInt 1, PyStr ''p'')" "''W''" "PyInt 1"] b c
  have "connect ex_XYZ (Some ''Z'') (PyInt 1) ''W'' (PyInt 1) (Some ''Z'') (PyStr ''p'')
          = (Some (PinDuplicate ''Z'' (PyStr ''p'')), ex_XYZ)"
    by simp
  with a b c show ?thesis by simp
qed

text \<open>
  C6, as the claim states it, fails: the token \<open>b\<close> occurs twice in the \<open>pinlabels\<close> of
  \<open>X\<close>, and \<open>connect\<close> raises the ambiguity error, not the duplicate error, because
  \<open>b\<close> is also the pin at position 1 while its first label is at position 0.
\<close>

theorem duplicate_label_reported_ambiguous:
  "map_of (connectors ex_XYZ) ''X'' = Some ex_X
   \<and> count_list (pinlabels ex_X) (PyStr ''b'') = 2
   \<and> connect ex_XYZ (Some ''X'') (PyStr ''b'') ''W'' (PyInt 1) None PyNone
       = (Some (PinAmbiguous ''X'' (PyStr ''b'')), ex_XYZ)"
  by (simp add: ex_XYZ_def ex_X_def ex_defs connect_defs)

section \<open>connect: a token that is a pin already\<close>

lemma check_endpoint_other_side:
  "check_endpoint h nm p fn tn (a, b) = Inr (a', b')
     \<Longrightarrow> (nm \<noteq> fn \<longrightarrow> a' = a) \<and> (nm \<noteq> tn \<longrightarrow> b' = b)"
  by (auto simp: check_endpoint_def Let_def split: option.splits if_splits)

text \<open>An iteration whose token is no label of its connector assigns nothing.\<close>

lemma check_endpoint_no_label:
  "map_of (connectors h) n = Some c \<Longrightarrow> p \<notin> set (pinlabels c)
     \<Longrightarrow> check_endpoint h (Some n) p fn tn s = Inr s' \<Longrightarrow> s' = s"
  by (auto simp: check_endpoint_def split: if_splits)

lemma check_endpoint_pin:
  assumes "map_of (connectors h) n = Some c" and "pin \<in> set (pins c)"
    and "pin \<notin> set (pinlabels c)
         \<or> (index (pinlabels c) pin = index (pins c) pin \<and> count_list (pinlabels c) pin = 1)"
  shows "check_endpoint h (Some n) pin fn tn (a, b)
           = Inr (if pin \<in> set (pinlabels c) \<and> Some n = fn then pin else a,
                  if pin \<in> set (pinlabels c) \<and> Some n = tn then pin else b)"
  using assms index_less [of pin "pins c"] nth_index [of pin "pins c"]
  by (auto simp: check_endpoint_def Let_def)

lemma activate_cables: "cables (activate h nm p) = cables h"
  by (simp add: activate_def split: option.splits)

lemma connect_records:
  assumes "connect h fn fp via w tn tp = (None, h')"
  shows "\<exists>r c'. check_endpoints h fn fp tn tp = Inr r
           \<and> map_of (cables h') via = Some c' \<and> connections c' \<noteq> []
           \<and> from_name (last (connections c')) = fn \<and> from_port (last (connections c')) = fst r
           \<and> to_name (last (connections c')) = tn \<and> to_port (last (connections c')) = snd r"
  using assms
  by (auto simp: connect_def Let_def activate_cables cable_connect_def update_conv'
           split: sum.splits prod.splits option.splits)

text \<open>
  C7, as the code has it. Let \<open>pin\<close> be a pin of the declared connector \<open>n\<close> that is no
  label of it, or is a label exactly once, at the position it has in \<open>pins\<close>. Then the
  check of the endpoint that names \<open>n\<close> with the token \<open>pin\<close> passes and leaves the token
  as it is, whatever the other endpoint is. A connection recorded by the call holds
  \<open>pin\<close> at that end, for the "from" end unless the "to" end names the same connector
  with a token that is one of its labels, and for the "to" end unless the "from" end names
  the same connector with a token that is one of its labels while \<open>pin\<close> is no label.
  (In those two cases lines 66 to 69 rebind the pin of this end from the other end; the
  statement says nothing about them.)
\<close>

theorem pin_id_unchanged:
  assumes "map_of (connectors h) n = Some c" and "pin \<in> set (pins c)"
    and "pin \<notin> set (pinlabels c)
         \<or> (index (pinlabels c) pin = index (pins c) pin \<and> count_list (pinlabels c) pin = 1)"
  shows "(fn = Some n \<and> fp = pin \<longrightarrow>
            (\<exists>tp'. check_endpoint h fn fp fn tn (fp, tp) = Inr (fp, tp'))
            \<and> (\<not> (tn = fn \<and> tp \<in> set (pinlabels c)) \<longrightarrow>
                 (\<forall>h'. connect h fn fp via w tn tp = (None, h') \<longrightarrow>
                    (\<exists>c'. map_of (cables h') via = Some c' \<and> connections c' \<noteq> []
                          \<and> from_port (last (connections c')) = pin))))
       \<and> (tn = Some n \<and> tp = pin \<longrightarrow>
            (\<forall>x. \<exists>x'. check_endpoint h tn tp fn tn (x, tp) = Inr (x', tp))
            \<and> (\<not> (fn = tn \<and> fp \<in> set (pinlabels c) \<and> pin \<notin> set (pinlabels c)) \<longrightarrow>
                 (\<forall>h'. connect h fn fp via w tn tp = (None, h') \<longrightarrow>
                    (\<exists>c'. map_of (cables h') via = Some c' \<and> connections c' \<noteq> []
                          \<and> to_port (last (connections c')) = pin))))"
proof (intro conjI impI allI)
  assume f: "fn = Some n \<and> fp = pin"
  from f check_endpoint_pin [OF assms(1-3), of fn tn fp tp]
  show "\<exists>tp'. check_endpoint h fn fp fn tn (fp, tp) = Inr (fp, tp')" by auto
next
  assume f: "fn = Some n \<and> fp = pin"
    and other: "\<not> (tn = fn \<and> tp \<in> set (pinlabels c))"
  fix h' assume "connect h fn fp via w tn tp = (None, h')"
  from connect_records [OF this] obtain r c' where
    r: "check_endpoints h fn fp tn tp = Inr r" and
    c': "map_of (cables h') via = Some c'" "connections c' \<noteq> []"
        "from_port (last (connections c')) = fst r"
    by blast
  from f check_endpoint_pin [OF assms(1-3), of fn tn fp tp]
  obtain tp' where first: "check_endpoint h fn fp fn tn (fp, tp) = Inr (fp, tp')" by auto
  with r have second: "check_endpoint h tn tp fn tn (fp, tp') = Inr r"
    by (simp add: check_endpoints_def)
  have "fst r = fp"
  proof (cases "tn = fn")
    case False
    with check_endpoint_other_side [of h tn tp fn tn fp tp' "fst r" "snd r"] second
    show ?thesis by auto
  next
    case True
    with other have "tp \<notin> set (pinlabels c)" by simp
    from check_endpoint_no_label [OF assms(1) this] second True f
    have "r = (fp, tp')" by auto
    then show ?thesis by simp
  qed
  with c' f show "\<exists>c'. map_of (cables h') via = Some c' \<and> connections c' \<noteq> []
                       \<and> from_port (last (connections c')) = pin"
    by auto
next
  assume t: "tn = Some n \<and> tp = pin"
  fix x
  from t check_endpoint_pin [OF assms(1-3), of fn tn x tp]
  show "\<exists>x'. check_endpoint h tn tp fn tn (x, tp) = Inr (x', tp)" by auto
next
  assume t: "tn = Some n \<and> tp = pin"
    and other: "\<not> (fn = tn \<and> fp \<in> set (pinlabels c) \<and> pin \<notin> set (pinlabels c))"
  fix h' assume "connect h fn fp via w tn tp = (None, h')"
  from connect_records [OF this] obtain r c' where
    r: "check_endpoints h fn fp tn tp = Inr r" and
    c': "map_of (cables h') via = Some c'" "connections c' \<noteq> []"
        "to_port (last (connections c')) = snd r"
    by blast
  from r obtain r1 where r1: "check_endpoint h fn fp fn tn (fp, tp) = Inr r1"
    and r2: "check_endpoint h tn tp fn tn r1 = Inr r"
    by (auto simp: check_endpoints_def split: sum.splits)
  from t check_endpoint_pin [OF assms(1-3), of fn tn "fst r1" "snd r1"] r2
  have sr: "snd r = (if pin \<in> set (pinlabels c) then pin else snd r1)" by auto
  have "snd r = pin"
  proof (cases "pin \<in> set (pinlabels c)")
    case True
    with sr show ?thesis by simp
  next
    case False
    have "snd r1 = tp"
    proof (cases "fn = tn")
      case False
      with check_endpoint_other_side [of h fn fp fn tn fp tp "fst r1" "snd r1"] r1
      show ?thesis by auto
    next
      case True
      with other \<open>pin \<notin> set (pinlabels c)\<close> have "fp \<notin> set (pinlabels c)" by simp
      from check_endpoint_no_label [OF assms(1) this] r1 True t
      have "r1 = (fp, tp)" by auto
      then show ?thesis by simp
    qed
    with sr False t show ?thesis by simp
  qed
  with c' show "\<exists>c'. map_of (cables h') via = Some c' \<and> connections c' \<noteq> []
                       \<and> to_port (last (connections c')) = pin"
    by auto
qed

theorem pin_id_unchanged_witness:
  "map_of (connectors ex_AB) ''A'' = Some (ex_connector ''A'' [PyInt 1, PyInt 2] [PyStr ''x'', PyStr ''y''] [])
   \<and> check_endpoint ex_AB (Some ''A'') (PyInt 1) (Some ''A'') (Some ''A'') (PyInt 1, PyInt 2)
       = Inr (PyInt 1, PyInt 2)
   \<and> (\<exists>h' c'. connect ex_AB (Some ''A'') (PyInt 1) ''W'' (PyStr ''RD'') (Some ''A'') (PyInt 2)
                 = (None, h')
         \<and> map_of (cables h') ''W'' = Some c' \<and> connections c' \<noteq> []
         \<and> from_port (last (connections c')) = PyInt 1
         \<and> to_port (last (connections c')) = PyInt 2)"
proof -
  let ?c = "ex_connector ''A'' [PyInt 1, PyInt 2] [PyStr ''x'', PyStr ''y''] []"
  have a: "map_of (connectors ex_AB) ''A'' = Some ?c"
    by (simp add: ex_AB_def ex_defs)
  have p1: "PyInt 1 \<in> set (pins ?c)" and p2: "PyInt 2 \<in> set (pins ?c)"
    and l1: "PyInt 1 \<notin> set (pinlabels ?c)" and l2: "PyInt 2 \<notin> set (pinlabels ?c)"
    by (simp_all add: ex_connector_def)
  from l1 have c1: "PyInt 1 \<notin> set (pinlabels ?c)
     \<or> (index (pinlabels ?c) (PyInt 1) = index (pins ?c) (PyInt 1)
        \<and> count_list (pinlabels ?c) (PyInt 1) = 1)" by blast
  from l2 have c2: "PyInt 2 \<notin> set (pinlabels ?c)
     \<or> (index (pinlabels ?c) (PyInt 2) = index (pins ?c) (PyInt 2)
        \<and> count_list (pinlabels ?c) (PyInt 2) = 1)" by blast
  have run: "\<exists>h'. connect ex_AB (Some ''A'') (PyInt 1) ''W'' (PyStr ''RD'') (Some ''A'') (PyInt 2)
                 = (None, h')"
    by (simp add: ex_AB_def ex_defs connect_defs)
  then obtain h' where h':
    "connect ex_AB (Some ''A'') (PyInt 1) ''W'' (PyStr ''RD'') (Some ''A'') (PyInt 2) = (None, h')"
    by blast
  from pin_id_unchanged [OF a p1 c1, of "Some ''A''" "PyInt 1" "Some ''A''" "PyInt 2"
      "''W''" "PyStr ''RD''"] h' l2
  have from_end: "(\<exists>tp'. check_endpoint ex_AB (Some ''A'') (PyInt 1) (Some ''A'') (Some ''A'')
                           (PyInt 1, PyInt 2) = Inr (PyInt 1, tp'))
        \<and> (\<exists>c'. map_of (cables h') ''W'' = Some c' \<and> connections c' \<noteq> []
                 \<and> from_port (last (connections c')) = PyInt 1)"
    by simp
  from pin_id_unchanged [OF a p2 c2, of "Some ''A''" "PyInt 1" "Some ''A''" "PyInt 2"
      "''W''" "PyStr ''RD''"] h' l1 l2
  have to_end: "\<exists>c'. map_of (cables h') ''W'' = Some c' \<and> connections c' \<noteq> []
                 \<and> to_port (last (connections c')) = PyInt 2"
    by simp
  have chk: "check_endpoint ex_AB (Some ''A'') (PyInt 1) (Some ''A'') (Some ''A'') (PyInt 1, PyInt 2)
       = Inr (PyInt 1, PyInt 2)"
    by (simp add: check_endpoint_def ex_AB_def ex_defs)
  from from_end to_end a chk h' show ?thesis by auto
qed

text \<open>
  C7, as the claim states it, fails: \<open>A\<close> is a pin of the connector \<open>Y\<close>, whose pins
  are distinct, and \<open>connect\<close> does not keep the token but raises the ambiguity error,
  because \<open>A\<close> is also the label of the other pin.
\<close>

theorem pin_id_rejected_as_ambiguous:
  "map_of (connectors ex_XYZ) ''Y'' = Some ex_Y
   \<and> PyStr ''A'' \<in> set (pins ex_Y) \<and> distinct (pins ex_Y)
   \<and> connect ex_XYZ (Some ''Y'') (PyStr ''A'') ''W'' (PyInt 1) None PyNone
       = (Some (PinAmbiguous ''Y'' (PyStr ''A'')), ex_XYZ)"
  by (simp add: ex_XYZ_def ex_Y_def ex_defs connect_defs)

text \<open>
  When both endpoints name the same connector, the assignments of lines 66 to 69 compare
  names, so a label at one end rebinds the pin of the other end as well: the call
  \<open>connect('A', 'x', 'W', 'BK', 'A', 2)\<close> records the connection from pin 1 to pin 1.
\<close>

lemma connect_same_connector_rebinds_both:
  "check_endpoints ex_AB (Some ''A'') (PyStr ''x'') (Some ''A'') (PyInt 2) = Inr (PyInt 1, PyInt 1)"
  by (simp add: ex_AB_def ex_defs connect_defs Let_def)

section \<open>bom: the cache\<close>

text \<open>None of the operations above writes \<open>_bom\<close>.\<close>

lemma connect_priv_bom: "priv_bom (snd (connect h fn fp via w tn tp)) = priv_bom h"
  by (auto simp: connect_def Let_def activate_def
           split: sum.splits prod.splits option.splits dest: check_via_state)

lemma add_priv_bom:
  "priv_bom (add_connector h n c) = priv_bom h" "priv_bom (add_cable h n' c') = priv_bom h"
  by (simp_all add: add_connector_def add_cable_def)

text \<open>
  C8, as the code has it. A call of \<open>bom\<close> on a harness with an empty \<open>_bom\<close> computes the
  list and stores it. If that list \<open>b\<close> is not empty, then on every harness \<open>h2\<close> that
  holds the stored list, whatever else of it has changed, \<open>bom\<close> returns \<open>b\<close> and leaves
  \<open>h2\<close> as it is, whatever \<open>generate_bom\<close> would compute (\<open>gen2\<close> is arbitrary): nothing
  is recomputed.
\<close>

theorem bom_cached_when_nonempty:
  assumes "priv_bom h = []" and "bom gen h = (b, h1)" and "b \<noteq> []"
    and "priv_bom h2 = priv_bom h1"
  shows "b = gen h \<and> h1 = h\<lparr>priv_bom := b\<rparr> \<and> bom gen2 h2 = (b, h2)"
  using assms by (auto simp: bom_def)

theorem bom_cached_when_nonempty_witness:
  "priv_bom ex_AB = []
   \<and> bom generate_bom ex_AB
       = ([(BomKey ''Connector'' [] [] [] [] [], 2), (BomKey ''Cable'' [] [] [] [] [], 1)],
          ex_AB\<lparr>priv_bom := [(BomKey ''Connector'' [] [] [] [] [], 2),
                              (BomKey ''Cable'' [] [] [] [] [], 1)]\<rparr>)
   \<and> bom generate_bom (add_connector (snd (bom generate_bom ex_AB)) ''Z'' ex_Z)
       = ([(BomKey ''Connector'' [] [] [] [] [], 2), (BomKey ''Cable'' [] [] [] [] [], 1)],
          add_connector (snd (bom generate_bom ex_AB)) ''Z'' ex_Z)"
proof -
  let ?b = "[(BomKey ''Connector'' [] [] [] [] [], 2::nat), (BomKey ''Cable'' [] [] [] [] [], 1)]"
  have a: "priv_bom ex_AB = []" by (simp add: ex_AB_def ex_defs)
  have g: "generate_bom ex_AB = ?b"
    by (simp add: generate_bom_def bom_keys_def count_key_def ex_AB_def ex_defs)
  from a g have run: "bom generate_bom ex_AB = (?b, ex_AB\<lparr>priv_bom := ?b\<rparr>)"
    by (simp add: bom_def)
  have ne: "?b \<noteq> []" by simp
  have same: "priv_bom (add_connector (snd (bom generate_bom ex_AB)) ''Z'' ex_Z)
                = priv_bom (ex_AB\<lparr>priv_bom := ?b\<rparr>)"
    by (simp add: run add_connector_def)
  from bom_cached_when_nonempty [OF a run ne same, of generate_bom]
  have "bom generate_bom (add_connector (snd (bom generate_bom ex_AB)) ''Z'' ex_Z)
          = (?b, add_connector (snd (bom generate_bom ex_AB)) ''Z'' ex_Z)"
    by blast
  with a run show ?thesis by blast
qed

text \<open>
  C8, as the claim states it, fails: on the harness that \<open>__init__\<close> builds the first call
  of \<open>bom\<close> computes the empty list, which leaves \<open>_bom\<close> empty; after a connector has
  been added the next call computes again and returns a list with that connector.
\<close>

theorem empty_bom_recomputed:
  "bom generate_bom init = ([], init)
   \<and> fst (bom generate_bom (add_connector (snd (bom generate_bom init)) ''Z'' ex_Z))
       = [(BomKey ''Connector'' [] [] [] [] [], 1)]"
  by (simp add: bom_def generate_bom_def bom_keys_def count_key_def ex_Z_def ex_defs)


end
